theory Spec2Isabelle
  imports Complex_Main "HOL-Library.AList"
begin

section \<open>The map model (module game-state)\<close>

text \<open>
  The Python exceptions that the modelled code can raise: \<open>ValueError\<close> is raised
  explicitly by \<open>add_units\<close> and \<open>set_owner\<close>; \<open>KeyError\<close> is what a dict subscript
  raises on an absent key; \<open>IndexError\<close> is what a list subscript raises out of range.
\<close>

datatype error = ValueError | KeyError | IndexError

datatype OrderType = MARCH | SUPPORT | DEFEND | RAID | CONSOLIDATE_POWER

datatype LocationType = LAND | SEA

datatype UnitType = FOOTMAN | KNIGHT | SIEGE_ENGINE | BOAT

datatype FortificationType = NONE | CASTLE | STRONGHOLD

text \<open>
  The dataclass \<open>Location\<close>. The coordinates \<open>x\<close> and \<open>y\<close> (fields \<open>loc_x\<close>, \<open>loc_y\<close>)
  are display values that no modelled method reads or writes. \<open>units\<close> is a Python
  dict, hence a partial map: the source itself reads it with \<open>units.get(kind, 0)\<close>.
  \<open>adjacent_locations\<close> is a Python set of names; it is kept as a list without
  repetitions whose order stands for the (unspecified) iteration order of the set, and
  every statement about it is made through \<open>set\<close>.
\<close>

record Location =
  name :: string
  loc_x :: real
  loc_y :: real
  location_type :: LocationType
  owner :: "string option"
  units :: "UnitType \<rightharpoonup> int"
  adjacent_locations :: "string list"
  "supply" :: int
  max_supply :: int
  crowns :: int
  fortification :: FortificationType

text \<open>\<open>Location(name=n)\<close> with every other field at its default.\<close>

definition new_Location :: "string \<Rightarrow> Location" where
  "new_Location n =
     \<lparr>name = n, loc_x = 0, loc_y = 0, location_type = LAND, owner = None,
      units = [FOOTMAN \<mapsto> 0, KNIGHT \<mapsto> 0, SIEGE_ENGINE \<mapsto> 0, BOAT \<mapsto> 0],
      adjacent_locations = [], supply = 0, max_supply = 1, crowns = 0,
      fortification = NONE\<rparr>"

definition unit_kinds :: "UnitType list" where
  "unit_kinds = [FOOTMAN, KNIGHT, SIEGE_ENGINE, BOAT]"

text \<open>\<open>self.units.get(unit_type, 0)\<close>\<close>

definition units_get :: "Location \<Rightarrow> UnitType \<Rightarrow> int" where
  "units_get l unit_type = (case units l unit_type of None \<Rightarrow> 0 | Some n \<Rightarrow> n)"

text \<open>\<open>sum(self.units.values())\<close>: the values of the entries that are present.\<close>

definition get_total_units :: "Location \<Rightarrow> int" where
  "get_total_units l = sum_list (List.map_filter (units l) unit_kinds)"

definition has_units :: "Location \<Rightarrow> bool" where
  "has_units l = (get_total_units l > 0)"

text \<open>
  Every mutating method returns what the call produced (a returned value, or the
  exception raised) together with the object as the call left it.
\<close>

definition add_units ::
  "Location \<Rightarrow> UnitType \<Rightarrow> int \<Rightarrow> string option \<Rightarrow> (error + bool) \<times> Location" where
  "add_units l unit_type count own =
     (case own of
        None \<Rightarrow>
          (Inr True, l\<lparr>units := (units l)(unit_type \<mapsto> units_get l unit_type + count)\<rparr>)
      | Some ow \<Rightarrow>
          (case owner l of
             None \<Rightarrow>
               (let l1 = l\<lparr>owner := Some ow\<rparr>
                in (Inr True,
                    l1\<lparr>units := (units l1)(unit_type \<mapsto> units_get l1 unit_type + count)\<rparr>))
           | Some cur \<Rightarrow>
               if cur \<noteq> ow then (Inl ValueError, l)
               else (Inr True,
                     l\<lparr>units := (units l)(unit_type \<mapsto> units_get l unit_type + count)\<rparr>)))"

text \<open>
  \<open>self.units[unit_type] -= count\<close> reads the entry with a subscript, which raises
  \<open>KeyError\<close> when the kind has no entry, although \<open>current\<close> was read with a default.
\<close>

definition remove_units ::
  "Location \<Rightarrow> UnitType \<Rightarrow> int \<Rightarrow> (error + bool) \<times> Location" where
  "remove_units l unit_type count =
     (let current = units_get l unit_type
      in if current \<ge> count then
           (case units l unit_type of
              None \<Rightarrow> (Inl KeyError, l)
            | Some v \<Rightarrow> (Inr True, l\<lparr>units := (units l)(unit_type \<mapsto> v - count)\<rparr>))
         else (Inr False, l))"

definition set_owner :: "Location \<Rightarrow> string option \<Rightarrow> (error + bool) \<times> Location" where
  "set_owner l new_owner =
     (if has_units l then (Inl ValueError, l)
      else (Inr True, l\<lparr>owner := new_owner\<rparr>))"

definition add_supply :: "Location \<Rightarrow> int \<Rightarrow> bool \<times> Location" where
  "add_supply l amount =
     (if supply l + amount > max_supply l then (False, l\<lparr>supply := max_supply l\<rparr>)
      else (True, l\<lparr>supply := supply l + amount\<rparr>))"

definition remove_supply :: "Location \<Rightarrow> int \<Rightarrow> bool \<times> Location" where
  "remove_supply l amount =
     (if supply l \<ge> amount then (True, l\<lparr>supply := supply l - amount\<rparr>)
      else (False, l))"

definition add_crowns :: "Location \<Rightarrow> int \<Rightarrow> bool \<times> Location" where
  "add_crowns l amount = (True, l\<lparr>crowns := crowns l + amount\<rparr>)"

definition remove_crowns :: "Location \<Rightarrow> int \<Rightarrow> bool \<times> Location" where
  "remove_crowns l amount =
     (if crowns l \<ge> amount then (True, l\<lparr>crowns := crowns l - amount\<rparr>)
      else (False, l))"

definition get_defense_bonus :: "Location \<Rightarrow> int" where
  "get_defense_bonus l =
     (if fortification l = STRONGHOLD then 2
      else if fortification l = CASTLE then 1
      else 0)"

definition set_fortification :: "Location \<Rightarrow> FortificationType \<Rightarrow> Location" where
  "set_fortification l fort_type = l\<lparr>fortification := fort_type\<rparr>"

text \<open>A run of \<open>add_supply\<close> calls on one location, one call per amount of the list.\<close>

fun add_supply_calls :: "Location \<Rightarrow> int list \<Rightarrow> Location" where
  "add_supply_calls l [] = l"
| "add_supply_calls l (amount # amounts) = add_supply_calls (snd (add_supply l amount)) amounts"

text \<open>
  The seven public mutators of a location as one operation type, so that a sequence of
  calls is a list. \<open>apply_op\<close> is the location as the call left it, whether the call
  returned or raised; \<open>run_ops\<close> performs the calls of the list from left to right.
\<close>

datatype loc_op =
    AddUnits UnitType int "string option"
  | RemoveUnits UnitType int
  | AddSupply int
  | RemoveSupply int
  | AddCrowns int
  | RemoveCrowns int
  | SetOwner "string option"

fun apply_op :: "Location \<Rightarrow> loc_op \<Rightarrow> Location" where
  "apply_op l (AddUnits unit_type count own) = snd (add_units l unit_type count own)"
| "apply_op l (RemoveUnits unit_type count) = snd (remove_units l unit_type count)"
| "apply_op l (AddSupply amount) = snd (add_supply l amount)"
| "apply_op l (RemoveSupply amount) = snd (remove_supply l amount)"
| "apply_op l (AddCrowns amount) = snd (add_crowns l amount)"
| "apply_op l (RemoveCrowns amount) = snd (remove_crowns l amount)"
| "apply_op l (SetOwner new_owner) = snd (set_owner l new_owner)"

fun run_ops :: "Location \<Rightarrow> loc_op list \<Rightarrow> Location" where
  "run_ops l [] = l"
| "run_ops l (op # ops) = run_ops (apply_op l op) ops"

text \<open>Every unit-kind count, the supply and the crowns are non-negative.\<close>

definition quantities_nonneg :: "Location \<Rightarrow> bool" where
  "quantities_nonneg l =
     (list_all (\<lambda>k. 0 \<le> units_get l k) unit_kinds \<and> 0 \<le> supply l \<and> 0 \<le> crowns l)"

text \<open>The amount that an adding operation is called with (\<open>None\<close> for the others).\<close>

fun added_amount :: "loc_op \<Rightarrow> int option" where
  "added_amount (AddUnits unit_type count own) = Some count"
| "added_amount (AddSupply amount) = Some amount"
| "added_amount (AddCrowns amount) = Some amount"
| "added_amount other = None"

definition additions_nonneg :: "loc_op list \<Rightarrow> bool" where
  "additions_nonneg ops = list_all (\<lambda>op. case added_amount op of None \<Rightarrow> True | Some a \<Rightarrow> 0 \<le> a) ops"

section \<open>Orders, statistics and the game state\<close>

text \<open>
  The dataclass \<open>Order\<close>. In Python an order refers to \<open>Location\<close> objects; here it
  holds their values, which is the same as long as the locations are not mutated
  between the creation of the order and its use, and the legal-move generator mutates
  nothing.
\<close>

record Order =
  order_type :: OrderType
  location :: Location
  target_location :: "Location option"
  bot_id :: "string option"

text \<open>
  The dataclass \<open>PlayerStats\<close>; its fields \<open>bot_id\<close> and \<open>power\<close> are \<open>stats_bot_id\<close>
  and \<open>stats_power\<close> here.
\<close>

record PlayerStats =
  stats_bot_id :: string
  territories :: int
  stats_power :: int
  total_units :: int
  units_killed :: int
  orders_executed :: int

definition get_score :: "PlayerStats \<Rightarrow> int" where
  "get_score stats = (territories stats * 10) + stats_power stats"

text \<open>
  An entry of \<open>turn_history\<close> as \<open>record_turn\<close> builds it: the turn number, and for
  each bot its territories, power, total units and score.
\<close>

type_synonym turn_data = "int \<times> (string \<times> int \<times> int \<times> int \<times> int) list"

subsection \<open>Python dicts, sets and list subscripts\<close>

text \<open>
  A dict is an association list in insertion order. \<open>k in d\<close>, \<open>d[k]\<close> (which
  raises \<open>KeyError\<close> on an absent key), \<open>d[k] = v\<close> (which keeps the position of a
  key that is present and appends a new one) and \<open>d.values()\<close>:
\<close>

definition dict_contains :: "('k \<times> 'v) list \<Rightarrow> 'k \<Rightarrow> bool" where
  "dict_contains d k = (map_of d k \<noteq> None)"

definition dict_getitem :: "('k \<times> 'v) list \<Rightarrow> 'k \<Rightarrow> error + 'v" where
  "dict_getitem d k = (case map_of d k of None \<Rightarrow> Inl KeyError | Some v \<Rightarrow> Inr v)"

definition dict_setitem :: "('k \<times> 'v) list \<Rightarrow> 'k \<Rightarrow> 'v \<Rightarrow> ('k \<times> 'v) list" where
  "dict_setitem d k v = AList.update k v d"

definition dict_values :: "('k \<times> 'v) list \<Rightarrow> 'v list" where
  "dict_values d = map snd d"

text \<open>\<open>s.add(x)\<close> on a set kept as a list without repetitions.\<close>

definition set_add :: "'a \<Rightarrow> 'a list \<Rightarrow> 'a list" where
  "set_add x xs = (if x \<in> set xs then xs else xs @ [x])"

text \<open>\<open>xs[i]\<close>: a negative index counts from the end, an index out of range raises.\<close>

definition list_getitem :: "'a list \<Rightarrow> int \<Rightarrow> error + 'a" where
  "list_getitem xs i =
     (if 0 \<le> i \<and> i < int (length xs) then Inr (xs ! nat i)
      else if i < 0 \<and> - int (length xs) \<le> i then Inr (xs ! nat (int (length xs) + i))
      else Inl IndexError)"

subsection \<open>The aggregate\<close>

record GameState =
  locations :: "(string \<times> Location) list"
  bot_orders :: "(string \<times> Order list) list"
  player_stats :: "(string \<times> PlayerStats) list"
  turn :: int
  turn_order :: "string list"
  current_turn_index :: int
  active_bots :: "string list"
  turn_history :: "turn_data list"

text \<open>\<open>GameState()\<close>: the empty state.\<close>

definition new_GameState :: GameState where
  "new_GameState =
     \<lparr>locations = [], bot_orders = [], player_stats = [], turn = 0, turn_order = [],
      current_turn_index = 0, active_bots = [], turn_history = []\<rparr>"

definition add_location :: "GameState \<Rightarrow> Location \<Rightarrow> GameState" where
  "add_location g loc = g\<lparr>locations := dict_setitem (locations g) (name loc) loc\<rparr>"

text \<open>
  The statement \<open>self.locations[a].adjacent_locations.add(b)\<close>: the subscript may
  raise; the location found is mutated in place, that is, stored back under its key.
  Each location is taken to own its adjacency set, as the dataclass's
  \<open>default_factory\<close> provides.
\<close>

definition adjacent_add :: "GameState \<Rightarrow> string \<Rightarrow> string \<Rightarrow> (error + unit) \<times> GameState" where
  "adjacent_add g a b =
     (case dict_getitem (locations g) a of
        Inl e \<Rightarrow> (Inl e, g)
      | Inr loc \<Rightarrow>
          (Inr (),
           g\<lparr>locations := dict_setitem (locations g) a
                (loc\<lparr>adjacent_locations := set_add b (adjacent_locations loc)\<rparr>)\<rparr>))"

definition connect_locations ::
  "GameState \<Rightarrow> string \<Rightarrow> string \<Rightarrow> (error + unit) \<times> GameState" where
  "connect_locations g loc1_name loc2_name =
     (if dict_contains (locations g) loc1_name \<and> dict_contains (locations g) loc2_name then
        (case adjacent_add g loc1_name loc2_name of
           (Inl e, g1) \<Rightarrow> (Inl e, g1)
         | (Inr u, g1) \<Rightarrow> adjacent_add g1 loc2_name loc1_name)
      else (Inr (), g))"

text \<open>
  \<open>[self.locations[name] for name in location.adjacent_locations if name in self.locations]\<close>
\<close>

fun adjacent_lookup :: "(string \<times> Location) list \<Rightarrow> string list \<Rightarrow> error + Location list" where
  "adjacent_lookup locs [] = Inr []"
| "adjacent_lookup locs (n # ns) =
     (if dict_contains locs n then
        (case dict_getitem locs n of
           Inl e \<Rightarrow> Inl e
         | Inr loc \<Rightarrow>
             (case adjacent_lookup locs ns of
                Inl e \<Rightarrow> Inl e
              | Inr rest \<Rightarrow> Inr (loc # rest)))
      else adjacent_lookup locs ns)"

definition get_adjacent_locations :: "GameState \<Rightarrow> Location \<Rightarrow> error + Location list" where
  "get_adjacent_locations g loc = adjacent_lookup (locations g) (adjacent_locations loc)"

definition get_bot_locations :: "GameState \<Rightarrow> string \<Rightarrow> Location list" where
  "get_bot_locations g botid = filter (\<lambda>loc. owner loc = Some botid) (dict_values (locations g))"

subsection \<open>Turn sequencing\<close>

definition set_turn_order :: "GameState \<Rightarrow> string list \<Rightarrow> GameState" where
  "set_turn_order g bot_order = g\<lparr>turn_order := bot_order, current_turn_index := 0\<rparr>"

text \<open>The result is \<open>None\<close> for Python's \<open>None\<close>, or the exception of the subscript.\<close>

definition get_current_player :: "GameState \<Rightarrow> error + string option" where
  "get_current_player g =
     (if turn_order g = [] then Inr None
      else (case list_getitem (turn_order g) (current_turn_index g) of
              Inl e \<Rightarrow> Inl e
            | Inr player \<Rightarrow> Inr (Some player)))"

definition next_turn :: "GameState \<Rightarrow> GameState" where
  "next_turn g =
     (if turn_order g = [] then g
      else (let g1 = g\<lparr>current_turn_index := current_turn_index g + 1\<rparr>
            in if current_turn_index g1 \<ge> int (length (turn_order g1))
               then g1\<lparr>current_turn_index := 0, turn := turn g1 + 1\<rparr>
               else g1))"

definition reset_turn_order :: "GameState \<Rightarrow> GameState" where
  "reset_turn_order g = g\<lparr>current_turn_index := 0\<rparr>"

text \<open>
  The turn-sequencing operations as a type, and a sequence of such calls performed from
  left to right: the states that they reach from the empty state are
  \<open>run_turn_ops new_GameState ops\<close>.
\<close>

datatype turn_op = SetTurnOrder "string list" | NextTurn | ResetTurnOrder

fun apply_turn_op :: "GameState \<Rightarrow> turn_op \<Rightarrow> GameState" where
  "apply_turn_op g (SetTurnOrder bot_order) = set_turn_order g bot_order"
| "apply_turn_op g NextTurn = next_turn g"
| "apply_turn_op g ResetTurnOrder = reset_turn_order g"

definition run_turn_ops :: "GameState \<Rightarrow> turn_op list \<Rightarrow> GameState" where
  "run_turn_ops g ops = foldl apply_turn_op g ops"

section \<open>The legal-move generator (module legal-moves)\<close>

text \<open>
  \<open>LegalMoveGenerator\<close> holds the game state it was built on. Its methods are modelled
  with the generator passed in and handed back, next to what the call produced: a
  value, or the exception raised.
\<close>

record LegalMoveGenerator =
  game_state :: GameState

text \<open>
  The \<open>==\<close> of the dataclasses compares the fields in order: two dicts are equal when
  they have the same entries, two sets when they have the same elements.
\<close>

definition units_eq :: "(UnitType \<rightharpoonup> int) \<Rightarrow> (UnitType \<rightharpoonup> int) \<Rightarrow> bool" where
  "units_eq u v = list_all (\<lambda>k. u k = v k) unit_kinds"

definition Location_eq :: "Location \<Rightarrow> Location \<Rightarrow> bool" where
  "Location_eq l1 l2 =
     (name l1 = name l2 \<and> loc_x l1 = loc_x l2 \<and> loc_y l1 = loc_y l2
      \<and> location_type l1 = location_type l2 \<and> owner l1 = owner l2
      \<and> units_eq (units l1) (units l2)
      \<and> set (adjacent_locations l1) = set (adjacent_locations l2)
      \<and> supply l1 = supply l2 \<and> max_supply l1 = max_supply l2 \<and> crowns l1 = crowns l2
      \<and> fortification l1 = fortification l2)"

definition Order_eq :: "Order \<Rightarrow> Order \<Rightarrow> bool" where
  "Order_eq o1 o2 =
     (order_type o1 = order_type o2
      \<and> Location_eq (location o1) (location o2)
      \<and> (case (target_location o1, target_location o2) of
            (None, None) \<Rightarrow> True
          | (Some t1, Some t2) \<Rightarrow> Location_eq t1 t2
          | _ \<Rightarrow> False)
      \<and> bot_id o1 = bot_id o2)"

text \<open>The body of \<open>for adj_location in adjacent\<close>, with its two \<open>if\<close> statements.\<close>

fun adjacent_orders :: "string \<Rightarrow> Location \<Rightarrow> Location list \<Rightarrow> Order list \<Rightarrow> Order list" where
  "adjacent_orders botid loc [] orders = orders"
| "adjacent_orders botid loc (adj_location # rest) orders =
     (let orders1 =
            (if owner adj_location \<noteq> Some botid
             then orders @ [\<lparr>order_type = MARCH, location = loc,
                             target_location = Some adj_location, bot_id = Some botid\<rparr>]
             else orders);
          orders2 =
            (if owner adj_location = Some botid
             then orders1 @ [\<lparr>order_type = SUPPORT, location = loc,
                              target_location = Some adj_location, bot_id = Some botid\<rparr>]
             else orders1)
      in adjacent_orders botid loc rest orders2)"

text \<open>The method \<open>_get_orders_for_location\<close>.\<close>

definition get_orders_for_location ::
  "LegalMoveGenerator \<Rightarrow> string \<Rightarrow> Location \<Rightarrow> (error + Order list) \<times> LegalMoveGenerator" where
  "get_orders_for_location gen botid loc =
     (let orders = [\<lparr>order_type = DEFEND, location = loc, target_location = None,
                     bot_id = Some botid\<rparr>]
      in case get_adjacent_locations (game_state gen) loc of
           Inl e \<Rightarrow> (Inl e, gen)
         | Inr adjacent \<Rightarrow> (Inr (adjacent_orders botid loc adjacent orders), gen))"

text \<open>The body of \<open>for location in controlled_locations\<close>.\<close>

fun legal_orders_loop ::
  "LegalMoveGenerator \<Rightarrow> string \<Rightarrow> Location list \<Rightarrow> (string \<times> Order list) list
     \<Rightarrow> (error + (string \<times> Order list) list) \<times> LegalMoveGenerator" where
  "legal_orders_loop gen botid [] legal_orders_by_location =
     (Inr legal_orders_by_location, gen)"
| "legal_orders_loop gen botid (loc # rest) legal_orders_by_location =
     (if \<not> has_units loc then legal_orders_loop gen botid rest legal_orders_by_location
      else (case get_orders_for_location gen botid loc of
              (Inl e, gen1) \<Rightarrow> (Inl e, gen1)
            | (Inr location_orders, gen1) \<Rightarrow>
                legal_orders_loop gen1 botid rest
                  (if location_orders \<noteq> []
                   then dict_setitem legal_orders_by_location (name loc) location_orders
                   else legal_orders_by_location)))"

definition get_legal_orders ::
  "LegalMoveGenerator \<Rightarrow> string
     \<Rightarrow> (error + (string \<times> Order list) list) \<times> LegalMoveGenerator" where
  "get_legal_orders gen botid =
     (let controlled_locations = get_bot_locations (game_state gen) botid
      in legal_orders_loop gen botid controlled_locations [])"

text \<open>\<open>order in location_orders\<close> is a search with \<open>==\<close>.\<close>

definition is_legal_order ::
  "LegalMoveGenerator \<Rightarrow> string \<Rightarrow> Order \<Rightarrow> (error + bool) \<times> LegalMoveGenerator" where
  "is_legal_order gen botid ord =
     (case get_legal_orders gen botid of
        (Inl e, gen1) \<Rightarrow> (Inl e, gen1)
      | (Inr legal_orders_by_location, gen1) \<Rightarrow>
          if \<not> dict_contains legal_orders_by_location (name (location ord))
          then (Inr False, gen1)
          else (case dict_getitem legal_orders_by_location (name (location ord)) of
                  Inl e \<Rightarrow> (Inl e, gen1)
                | Inr location_orders \<Rightarrow>
                    (Inr (list_ex (\<lambda>candidate. Order_eq candidate ord) location_orders), gen1)))"

text \<open>
  What the properties of the generator are stated with. A game state is keyed by name
  when its \<open>locations\<close> dict has each key once and holds every location under its own
  name, which is how \<open>add_location\<close> stores it. The neighbours of a location are the
  locations found under the names of its adjacency set that are keys of the map, and
  the order towards a neighbour is a MARCH when the neighbour's owner is not the bot
  and a SUPPORT when it is.
\<close>

definition keyed_by_name :: "GameState \<Rightarrow> bool" where
  "keyed_by_name g =
     (distinct (map fst (locations g)) \<and> list_all (\<lambda>(k, loc). name loc = k) (locations g))"

definition neighbours :: "GameState \<Rightarrow> Location \<Rightarrow> Location list" where
  "neighbours g loc = List.map_filter (map_of (locations g)) (adjacent_locations loc)"

definition defend_order :: "string \<Rightarrow> Location \<Rightarrow> Order" where
  "defend_order botid loc =
     \<lparr>order_type = DEFEND, location = loc, target_location = None, bot_id = Some botid\<rparr>"

definition neighbour_order :: "string \<Rightarrow> Location \<Rightarrow> Location \<Rightarrow> Order" where
  "neighbour_order botid loc n =
     \<lparr>order_type = (if owner n = Some botid then SUPPORT else MARCH), location = loc,
      target_location = Some n, bot_id = Some botid\<rparr>"

definition expected_orders :: "GameState \<Rightarrow> string \<Rightarrow> Location \<Rightarrow> Order list" where
  "expected_orders g botid loc =
     defend_order botid loc # map (neighbour_order botid loc) (neighbours g loc)"

text \<open>The locations of a bot that the generator gives orders to.\<close>

definition ordering_locations :: "GameState \<Rightarrow> string \<Rightarrow> Location list" where
  "ordering_locations g botid = filter has_units (get_bot_locations g botid)"

text \<open>
  A small map for evaluating the generator: Winterfell, held by Stark with two footmen,
  borders Moat Cailin, held by Stark without units, and Pyke, which nobody holds; its
  adjacency set also names a place that is not on the map.
\<close>

definition demo_winterfell :: Location where
  "demo_winterfell =
     (new_Location ''Winterfell'')
       \<lparr>owner := Some ''Stark'',
        units := [FOOTMAN \<mapsto> 2, KNIGHT \<mapsto> 0, SIEGE_ENGINE \<mapsto> 0, BOAT \<mapsto> 0],
        adjacent_locations := [''Moat Cailin'', ''Asshai'', ''Pyke'']\<rparr>"

definition demo_moat :: Location where
  "demo_moat =
     (new_Location ''Moat Cailin'')
       \<lparr>owner := Some ''Stark'', adjacent_locations := [''Winterfell'']\<rparr>"

definition demo_pyke :: Location where
  "demo_pyke = (new_Location ''Pyke'')\<lparr>adjacent_locations := [''Winterfell'']\<rparr>"

definition demo_generator :: LegalMoveGenerator where
  "demo_generator =
     \<lparr>game_state = new_GameState
        \<lparr>locations := [(''Winterfell'', demo_winterfell), (''Moat Cailin'', demo_moat),
                        (''Pyke'', demo_pyke)]\<rparr>\<rparr>"

text \<open>
  A state that is not keyed by name: two locations named Harrenhal stand under the
  keys \<open>k1\<close> and \<open>k3\<close>. Stark holds all three locations with units, and the first
  Harrenhal borders the Twins, which stand under \<open>k2\<close>.
\<close>

definition clash_first :: Location where
  "clash_first =
     (new_Location ''Harrenhal'')
       \<lparr>owner := Some ''Stark'',
        units := [FOOTMAN \<mapsto> 1, KNIGHT \<mapsto> 0, SIEGE_ENGINE \<mapsto> 0, BOAT \<mapsto> 0],
        adjacent_locations := [''k2'']\<rparr>"

definition clash_twins :: Location where
  "clash_twins =
     (new_Location ''Twins'')
       \<lparr>owner := Some ''Stark'',
        units := [FOOTMAN \<mapsto> 0, KNIGHT \<mapsto> 1, SIEGE_ENGINE \<mapsto> 0, BOAT \<mapsto> 0]\<rparr>"

definition clash_second :: Location where
  "clash_second =
     (new_Location ''Harrenhal'')
       \<lparr>owner := Some ''Stark'',
        units := [FOOTMAN \<mapsto> 0, KNIGHT \<mapsto> 2, SIEGE_ENGINE \<mapsto> 0, BOAT \<mapsto> 0]\<rparr>"

definition clash_generator :: LegalMoveGenerator where
  "clash_generator =
     \<lparr>game_state = new_GameState
        \<lparr>locations := [(''k1'', clash_first), (''k2'', clash_twins), (''k3'', clash_second)]\<rparr>\<rparr>"

section \<open>Properties of the map model\<close>

lemma add_supply_at_cap:
  "supply l = max_supply l \<Longrightarrow> 0 \<le> amount \<Longrightarrow> snd (add_supply l amount) = l"
  by (cases "amount = 0") (simp_all add: add_supply_def)

lemma add_supply_calls_at_cap:
  "supply l = max_supply l \<Longrightarrow> \<forall>a \<in> set amounts. 0 \<le> a \<Longrightarrow> add_supply_calls l amounts = l"
  by (induction amounts) (simp_all add: add_supply_at_cap)

text \<open>
  C6. On a location with \<open>supply \<le> max_supply\<close> and for an amount \<open>\<ge> 0\<close>, \<open>add_supply\<close>
  never leaves the supply above \<open>max_supply\<close>: when \<open>supply + amount\<close> exceeds the cap
  it sets the supply to exactly the cap and returns \<open>False\<close>, otherwise it adds the
  whole amount and returns \<open>True\<close>. Once the supply is at the cap, any further run of
  \<open>add_supply\<close> calls with such amounts leaves the location as it is.
\<close>

theorem add_supply_cap:
  assumes "supply l \<le> max_supply l" and "0 \<le> amount"
  shows "supply (snd (add_supply l amount)) \<le> max_supply l
       \<and> max_supply (snd (add_supply l amount)) = max_supply l
       \<and> add_supply l amount =
           (if supply l + amount > max_supply l then (False, l\<lparr>supply := max_supply l\<rparr>)
            else (True, l\<lparr>supply := supply l + amount\<rparr>))
       \<and> (supply l = max_supply l \<and> (\<forall>a \<in> set amounts. 0 \<le> a)
            \<longrightarrow> add_supply_calls l amounts = l)"
  using assms by (simp add: add_supply_def add_supply_calls_at_cap)

theorem add_supply_cap_witness:
  "add_supply ((new_Location ''Supply Depot'')\<lparr>supply := 2, max_supply := 3\<rparr>) 2
     = (False, (new_Location ''Supply Depot'')\<lparr>supply := 3, max_supply := 3\<rparr>)
   \<and> add_supply_calls ((new_Location ''Supply Depot'')\<lparr>supply := 3, max_supply := 3\<rparr>) [2, 0, 5]
     = (new_Location ''Supply Depot'')\<lparr>supply := 3, max_supply := 3\<rparr>"
  using add_supply_cap [of "(new_Location ''Supply Depot'')\<lparr>supply := 2, max_supply := 3\<rparr>" 2 "[]"]
        add_supply_cap [of "(new_Location ''Supply Depot'')\<lparr>supply := 3, max_supply := 3\<rparr>" 0 "[2, 0, 5]"]
  by (simp add: new_Location_def)

text \<open>
  C4. For a count \<open>\<ge> 0\<close>: \<open>add_units\<close> with an explicit owner assigns that owner when
  the location has none; when the location has an owner and the given one differs, it
  raises \<open>ValueError\<close> and leaves the location as it was; and whenever it does not
  raise, it returns \<open>True\<close>, the count of the given kind has grown by exactly \<open>count\<close>
  and no other kind has changed. The last conjunct is the whole method in one equation.
\<close>

theorem add_units_owner:
  assumes "0 \<le> count"
  shows "(owner l = None \<longrightarrow>
            fst (add_units l unit_type count (Some ow)) = Inr True
          \<and> owner (snd (add_units l unit_type count (Some ow))) = Some ow)
       \<and> (owner l \<noteq> None \<and> owner l \<noteq> Some ow \<longrightarrow>
            add_units l unit_type count (Some ow) = (Inl ValueError, l))
       \<and> (fst (add_units l unit_type count own) = Inr True \<longrightarrow>
            units_get (snd (add_units l unit_type count own)) unit_type
              = units_get l unit_type + count
          \<and> (\<forall>k. k \<noteq> unit_type \<longrightarrow>
                units (snd (add_units l unit_type count own)) k = units l k))
       \<and> add_units l unit_type count own =
           (if own \<noteq> None \<and> owner l \<noteq> None \<and> owner l \<noteq> own then (Inl ValueError, l)
            else (Inr True,
                  l\<lparr>owner := (if owner l = None then own else owner l),
                    units := (units l)(unit_type \<mapsto> units_get l unit_type + count)\<rparr>))"
  by (auto simp add: add_units_def units_get_def Let_def split: option.splits)

theorem add_units_owner_witness:
  "add_units (new_Location ''Winterfell'') FOOTMAN 2 (Some ''Stark'')
     = (Inr True, (new_Location ''Winterfell'')
          \<lparr>owner := Some ''Stark'',
           units := [FOOTMAN \<mapsto> 2, KNIGHT \<mapsto> 0, SIEGE_ENGINE \<mapsto> 0, BOAT \<mapsto> 0]\<rparr>)
   \<and> add_units ((new_Location ''Winterfell'')\<lparr>owner := Some ''Stark''\<rparr>) FOOTMAN 2 (Some ''Lannister'')
     = (Inl ValueError, (new_Location ''Winterfell'')\<lparr>owner := Some ''Stark''\<rparr>)"
  using add_units_owner [of 2 "new_Location ''Winterfell''" FOOTMAN "''Stark''" "Some ''Stark''"]
        add_units_owner [of 2 "(new_Location ''Winterfell'')\<lparr>owner := Some ''Stark''\<rparr>" FOOTMAN
                            "''Lannister''" "Some ''Lannister''"]
  by (auto simp add: new_Location_def units_get_def fun_upd_twist)

lemma total_units_nonneg:
  "list_all (\<lambda>k. 0 \<le> units_get l k) unit_kinds \<Longrightarrow> 0 \<le> get_total_units l"
  by (simp add: get_total_units_def unit_kinds_def units_get_def List.map_filter_def
           split: option.splits)

text \<open>
  C3, as the claim states it, fails: \<open>has_units\<close> tests \<open>total > 0\<close>, and \<open>add_units\<close>
  takes a negative count, so a location can hold a negative total; \<open>set_owner\<close> then
  succeeds although the total is not zero.
\<close>

theorem set_owner_negative_total:
  "get_total_units (snd (add_units (new_Location ''Keep'') FOOTMAN (- 1) None)) = - 1
   \<and> set_owner (snd (add_units (new_Location ''Keep'') FOOTMAN (- 1) None)) (Some ''Stark'')
       = (Inr True,
          (snd (add_units (new_Location ''Keep'') FOOTMAN (- 1) None))\<lparr>owner := Some ''Stark''\<rparr>)"
  by (simp add: set_owner_def has_units_def get_total_units_def add_units_def new_Location_def
        unit_kinds_def units_get_def List.map_filter_def)

text \<open>
  C3, amended. \<open>set_owner\<close> raises \<open>ValueError\<close> and leaves the location as it was when
  the total unit count is positive; otherwise it returns \<open>True\<close> and replaces the owner,
  whatever the previous owner was, and changes nothing else. So it succeeds exactly
  when the total is not positive, and on a location whose unit counts are all
  non-negative exactly when the total is zero.
\<close>

theorem set_owner_iff_not_positive:
  "set_owner l new_owner =
     (if get_total_units l > 0 then (Inl ValueError, l) else (Inr True, l\<lparr>owner := new_owner\<rparr>))
   \<and> (fst (set_owner l new_owner) = Inr True \<longleftrightarrow> get_total_units l \<le> 0)
   \<and> (list_all (\<lambda>k. 0 \<le> units_get l k) unit_kinds \<longrightarrow>
        (fst (set_owner l new_owner) = Inr True \<longleftrightarrow> get_total_units l = 0))"
  using total_units_nonneg [of l]
  by (auto simp add: set_owner_def has_units_def)

theorem set_owner_iff_not_positive_witness:
  "list_all (\<lambda>k. 0 \<le> units_get (new_Location ''Keep'') k) unit_kinds
   \<and> get_total_units (new_Location ''Keep'') = 0
   \<and> set_owner (new_Location ''Keep'') (Some ''Stark'')
       = (Inr True, (new_Location ''Keep'')\<lparr>owner := Some ''Stark''\<rparr>)"
  using set_owner_iff_not_positive [of "new_Location ''Keep''" "Some ''Stark''"]
  by (simp add: new_Location_def get_total_units_def unit_kinds_def units_get_def
        List.map_filter_def)

text \<open>
  The removals where they behave as C5 says: \<open>remove_supply\<close> and \<open>remove_crowns\<close>
  always, \<open>remove_units\<close> when the kind has an entry in \<open>units\<close> or the request
  exceeds the count.
\<close>

lemma remove_units_present:
  "units l unit_type = Some v \<Longrightarrow>
     remove_units l unit_type count =
       (if v \<ge> count then (Inr True, l\<lparr>units := (units l)(unit_type \<mapsto> v - count)\<rparr>)
        else (Inr False, l))"
  by (simp add: remove_units_def units_get_def)

lemma remove_units_insufficient:
  "units_get l unit_type < count \<Longrightarrow> remove_units l unit_type count = (Inr False, l)"
  by (simp add: remove_units_def)

lemma remove_supply_exact:
  "remove_supply l amount =
     (if supply l \<ge> amount then (True, l\<lparr>supply := supply l - amount\<rparr>) else (False, l))"
  by (simp add: remove_supply_def)

lemma remove_crowns_exact:
  "remove_crowns l amount =
     (if crowns l \<ge> amount then (True, l\<lparr>crowns := crowns l - amount\<rparr>) else (False, l))"
  by (simp add: remove_crowns_def)

text \<open>
  C5 does not hold of \<open>remove_units\<close> on a location whose \<open>units\<close> dict has no entry
  for the kind. \<open>Location(name="Keep", units={FOOTMAN: 3}).remove_units(KNIGHT, 0)\<close>:
  the count read with \<open>get(kind, 0)\<close> is 0, which is at least the requested 0, and
  the subscript in \<open>self.units[unit_type] -= count\<close> then raises \<open>KeyError\<close> instead
  of the method returning \<open>True\<close>.
\<close>

theorem remove_units_missing_kind:
  "units_get ((new_Location ''Keep'')\<lparr>units := [FOOTMAN \<mapsto> 3]\<rparr>) KNIGHT = 0
   \<and> remove_units ((new_Location ''Keep'')\<lparr>units := [FOOTMAN \<mapsto> 3]\<rparr>) KNIGHT 0
       = (Inl KeyError, (new_Location ''Keep'')\<lparr>units := [FOOTMAN \<mapsto> 3]\<rparr>)"
  by (simp add: remove_units_def units_get_def new_Location_def)

lemma apply_op_nonneg:
  assumes "quantities_nonneg l" and "0 \<le> max_supply l"
    and "case added_amount op of None \<Rightarrow> True | Some a \<Rightarrow> 0 \<le> a"
  shows "quantities_nonneg (apply_op l op) \<and> max_supply (apply_op l op) = max_supply l"
  using assms
  by (cases op)
     (auto simp add: quantities_nonneg_def unit_kinds_def units_get_def add_units_def
        remove_units_def add_supply_def remove_supply_def add_crowns_def remove_crowns_def
        set_owner_def Let_def split: option.splits if_splits)

text \<open>
  C8, as the claim states it, fails. No mutator checks the sign of its argument:
  \<open>add_crowns(-1)\<close> is accepted (it returns \<open>True\<close>) and leaves \<open>crowns = -1\<close>.
  And a location whose \<open>max_supply\<close> is negative (the claim constrains only the unit
  counts, the supply and the crowns) gets a negative supply from \<open>add_supply(0)\<close>, which
  clamps to \<open>max_supply\<close>.
\<close>

theorem negative_amount_accepted:
  "quantities_nonneg (new_Location ''Keep'')
   \<and> add_crowns (new_Location ''Keep'') (- 1) = (True, (new_Location ''Keep'')\<lparr>crowns := - 1\<rparr>)
   \<and> \<not> quantities_nonneg (run_ops (new_Location ''Keep'') [AddCrowns (- 1)])
   \<and> quantities_nonneg ((new_Location ''Keep'')\<lparr>max_supply := - 1\<rparr>)
   \<and> \<not> quantities_nonneg (run_ops ((new_Location ''Keep'')\<lparr>max_supply := - 1\<rparr>) [AddSupply 0])"
  by (simp add: quantities_nonneg_def new_Location_def unit_kinds_def units_get_def
        add_crowns_def add_supply_def)

text \<open>
  C8, amended. On a location that starts with non-negative unit counts, supply and
  crowns and whose \<open>max_supply\<close> is non-negative, every sequence of the seven
  mutators in which each adding call (\<open>add_units\<close>, \<open>add_supply\<close>, \<open>add_crowns\<close>) is
  given a non-negative amount keeps every unit-kind count, the supply and the crowns
  non-negative. The arguments of the removals and of \<open>set_owner\<close> are unrestricted, and
  calls that fail or raise are part of the sequence.
\<close>

theorem run_ops_nonneg:
  assumes "quantities_nonneg l" and "0 \<le> max_supply l" and "additions_nonneg ops"
  shows "quantities_nonneg (run_ops l ops)"
  using assms
proof (induction ops arbitrary: l)
  case Nil
  then show ?case by simp
next
  case (Cons op ops)
  from Cons.prems
  have "quantities_nonneg (apply_op l op) \<and> max_supply (apply_op l op) = max_supply l"
    by (intro apply_op_nonneg) (simp_all add: additions_nonneg_def)
  with Cons show ?case by (simp add: additions_nonneg_def)
qed

theorem run_ops_nonneg_witness:
  "quantities_nonneg (new_Location ''Keep'')
   \<and> 0 \<le> max_supply (new_Location ''Keep'')
   \<and> additions_nonneg
        [AddUnits FOOTMAN 2 (Some ''Stark''), RemoveUnits FOOTMAN 5, RemoveUnits FOOTMAN (- 2),
         AddSupply 3, RemoveSupply 1, AddCrowns 10, RemoveCrowns 3, SetOwner (Some ''Lannister'')]
   \<and> quantities_nonneg
       (run_ops (new_Location ''Keep'')
        [AddUnits FOOTMAN 2 (Some ''Stark''), RemoveUnits FOOTMAN 5, RemoveUnits FOOTMAN (- 2),
         AddSupply 3, RemoveSupply 1, AddCrowns 10, RemoveCrowns 3, SetOwner (Some ''Lannister'')])"
  using run_ops_nonneg [of "new_Location ''Keep''"
        "[AddUnits FOOTMAN 2 (Some ''Stark''), RemoveUnits FOOTMAN 5, RemoveUnits FOOTMAN (- 2),
         AddSupply 3, RemoveSupply 1, AddCrowns 10, RemoveCrowns 3, SetOwner (Some ''Lannister'')]"]
  by (simp add: quantities_nonneg_def new_Location_def unit_kinds_def units_get_def
        additions_nonneg_def)

section \<open>Properties of the game state\<close>

lemma map_of_dict_setitem:
  "map_of (dict_setitem d k v) = (map_of d)(k \<mapsto> v)"
  by (simp add: dict_setitem_def update_conv')

lemma dict_setitem_same: "map_of d k = Some v \<Longrightarrow> dict_setitem d k v = d"
  by (simp add: dict_setitem_def update_triv)

lemma adjacent_add_known:
  "map_of (locations g) a = Some loc \<Longrightarrow>
     adjacent_add g a b =
       (Inr (), g\<lparr>locations := dict_setitem (locations g) a
                    (loc\<lparr>adjacent_locations := set_add b (adjacent_locations loc)\<rparr>)\<rparr>)"
  by (simp add: adjacent_add_def dict_getitem_def)

lemma adjacent_add_present:
  "map_of (locations g) a = Some loc \<Longrightarrow> b \<in> set (adjacent_locations loc) \<Longrightarrow>
     adjacent_add g a b = (Inr (), g)"
  by (simp add: adjacent_add_known set_add_def dict_setitem_same)

lemma set_set_add: "set (set_add x xs) = insert x (set xs)"
  by (auto simp add: set_add_def)

lemma connect_locations_known:
  assumes "map_of (locations g) a = Some la" and "map_of (locations g) b = Some lb"
  shows "\<exists>g' la' lb'. connect_locations g a b = (Inr (), g')
           \<and> map_of (locations g') a = Some la' \<and> b \<in> set (adjacent_locations la')
           \<and> map_of (locations g') b = Some lb' \<and> a \<in> set (adjacent_locations lb')"
proof -
  let ?la = "la\<lparr>adjacent_locations := set_add b (adjacent_locations la)\<rparr>"
  let ?g1 = "g\<lparr>locations := dict_setitem (locations g) a ?la\<rparr>"
  have step1: "adjacent_add g a b = (Inr (), ?g1)"
    using assms(1) by (rule adjacent_add_known)
  obtain lb1 where lb1: "map_of (locations ?g1) b = Some lb1"
    and lb1_adj: "a = b \<longrightarrow> b \<in> set (adjacent_locations lb1)"
    using assms by (cases "a = b") (simp_all add: map_of_dict_setitem set_set_add)
  let ?lb = "lb1\<lparr>adjacent_locations := set_add a (adjacent_locations lb1)\<rparr>"
  let ?g2 = "?g1\<lparr>locations := dict_setitem (locations ?g1) b ?lb\<rparr>"
  have step2: "adjacent_add ?g1 b a = (Inr (), ?g2)"
    using lb1 by (rule adjacent_add_known)
  have "connect_locations g a b = (Inr (), ?g2)"
    using assms step1 step2 by (simp add: connect_locations_def dict_contains_def)
  moreover have "map_of (locations ?g2) b = Some ?lb"
    by (simp add: map_of_dict_setitem)
  moreover have "a \<in> set (adjacent_locations ?lb)"
    by (simp add: set_set_add)
  moreover have "\<exists>la'. map_of (locations ?g2) a = Some la' \<and> b \<in> set (adjacent_locations la')"
    using lb1_adj by (cases "a = b") (simp_all add: map_of_dict_setitem set_set_add)
  ultimately show ?thesis by blast
qed

lemma connect_locations_unknown:
  "\<not> dict_contains (locations g) a \<or> \<not> dict_contains (locations g) b \<Longrightarrow>
     connect_locations g a b = (Inr (), g)"
  by (auto simp add: connect_locations_def)

lemma connect_locations_present:
  assumes "map_of (locations g) a = Some la" and "b \<in> set (adjacent_locations la)"
    and "map_of (locations g) b = Some lb" and "a \<in> set (adjacent_locations lb)"
  shows "connect_locations g a b = (Inr (), g)"
  using assms
  by (simp add: connect_locations_def dict_contains_def adjacent_add_present [of g a la b]
        adjacent_add_present [of g b lb a])

text \<open>
  C7. \<open>connect_locations(a, b)\<close> never raises. When both names are registered, after
  the call the location under \<open>a\<close> has \<open>b\<close> in its adjacency set and the location
  under \<open>b\<close> has \<open>a\<close> in its own. Calling it again on the resulting state, with the
  same arguments or with the arguments swapped, changes nothing. When either name is
  not registered, the call changes nothing.
\<close>

theorem connect_locations_symmetric:
  "fst (connect_locations g a b) = Inr ()
   \<and> (dict_contains (locations g) a \<and> dict_contains (locations g) b \<longrightarrow>
        (\<exists>la lb. map_of (locations (snd (connect_locations g a b))) a = Some la
                \<and> b \<in> set (adjacent_locations la)
                \<and> map_of (locations (snd (connect_locations g a b))) b = Some lb
                \<and> a \<in> set (adjacent_locations lb)))
   \<and> connect_locations (snd (connect_locations g a b)) a b
        = (Inr (), snd (connect_locations g a b))
   \<and> connect_locations (snd (connect_locations g a b)) b a
        = (Inr (), snd (connect_locations g a b))
   \<and> (\<not> dict_contains (locations g) a \<or> \<not> dict_contains (locations g) b \<longrightarrow>
        connect_locations g a b = (Inr (), g))"
proof (cases "dict_contains (locations g) a \<and> dict_contains (locations g) b")
  case True
  then obtain la lb where "map_of (locations g) a = Some la" "map_of (locations g) b = Some lb"
    by (auto simp add: dict_contains_def)
  from connect_locations_known [OF this]
  obtain g' la' lb' where r: "connect_locations g a b = (Inr (), g')"
    and a: "map_of (locations g') a = Some la'" "b \<in> set (adjacent_locations la')"
    and b: "map_of (locations g') b = Some lb'" "a \<in> set (adjacent_locations lb')"
    by blast
  have "connect_locations g' a b = (Inr (), g')"
    using a b by (rule connect_locations_present)
  moreover have "connect_locations g' b a = (Inr (), g')"
    using b a by (rule connect_locations_present)
  ultimately show ?thesis using True r a b by auto
next
  case False
  then have "connect_locations g a b = (Inr (), g)"
    by (intro connect_locations_unknown) simp
  with False show ?thesis by (auto simp add: connect_locations_unknown)
qed


theorem connect_locations_symmetric_witness:
  "dict_contains (locations (add_location (add_location new_GameState (new_Location ''A'')) (new_Location ''B''))) ''A''
   \<and> dict_contains (locations (add_location (add_location new_GameState (new_Location ''A'')) (new_Location ''B''))) ''B''
   \<and> map_of (locations (snd (connect_locations
        (add_location (add_location new_GameState (new_Location ''A'')) (new_Location ''B'')) ''A'' ''B''))) ''A''
       = Some ((new_Location ''A'')\<lparr>adjacent_locations := [''B'']\<rparr>)
   \<and> map_of (locations (snd (connect_locations
        (add_location (add_location new_GameState (new_Location ''A'')) (new_Location ''B'')) ''A'' ''B''))) ''B''
       = Some ((new_Location ''B'')\<lparr>adjacent_locations := [''A'']\<rparr>)
   \<and> \<not> dict_contains (locations (add_location (add_location new_GameState (new_Location ''A'')) (new_Location ''B''))) ''C''
   \<and> connect_locations (add_location (add_location new_GameState (new_Location ''A'')) (new_Location ''B'')) ''A'' ''C''
       = (Inr (), add_location (add_location new_GameState (new_Location ''A'')) (new_Location ''B''))"
  using connect_locations_symmetric
          [of "add_location (add_location new_GameState (new_Location ''A'')) (new_Location ''B'')" "''A''" "''B''"]
        connect_locations_symmetric
          [of "add_location (add_location new_GameState (new_Location ''A'')) (new_Location ''B'')" "''A''" "''C''"]
  by (simp add: connect_locations_def adjacent_add_def dict_contains_def dict_getitem_def
        dict_setitem_def add_location_def new_GameState_def new_Location_def set_add_def)

text \<open>
  C2. With \<open>turn_order = [a, b, c]\<close> and \<open>current_turn_index = 0\<close>, three \<open>next_turn\<close>
  calls give the state back with only the turn counter changed, grown by one: the
  pointer is at 0 again, on \<open>a\<close>. The first two calls only move the pointer, so the
  counter grows once per rotation and not once per call.
\<close>

theorem next_turn_rotation:
  assumes "turn_order g = [a, b, c]" and "current_turn_index g = 0"
  shows "next_turn (next_turn (next_turn g)) = g\<lparr>turn := turn g + 1\<rparr>
       \<and> current_turn_index (next_turn (next_turn (next_turn g))) = 0
       \<and> get_current_player (next_turn (next_turn (next_turn g))) = Inr (Some a)
       \<and> turn (next_turn (next_turn (next_turn g))) = turn g + 1
       \<and> next_turn g = g\<lparr>current_turn_index := 1\<rparr>
       \<and> next_turn (next_turn g) = g\<lparr>current_turn_index := 2\<rparr>"
  using assms
  by (simp add: next_turn_def get_current_player_def list_getitem_def Let_def)

theorem next_turn_rotation_witness:
  "turn_order (set_turn_order new_GameState [''Stark'', ''Lannister'', ''Baratheon''])
     = [''Stark'', ''Lannister'', ''Baratheon'']
   \<and> current_turn_index (set_turn_order new_GameState [''Stark'', ''Lannister'', ''Baratheon'']) = 0
   \<and> next_turn (next_turn (next_turn
        (set_turn_order new_GameState [''Stark'', ''Lannister'', ''Baratheon''])))
     = (set_turn_order new_GameState [''Stark'', ''Lannister'', ''Baratheon''])\<lparr>turn := 1\<rparr>"
  using next_turn_rotation
          [of "set_turn_order new_GameState [''Stark'', ''Lannister'', ''Baratheon'']"
              "''Stark''" "''Lannister''" "''Baratheon''"]
  by (simp add: set_turn_order_def new_GameState_def next_turn_def Let_def)

lemma apply_turn_op_inv:
  assumes "(turn_order g = [] \<and> current_turn_index g = 0)
     \<or> (0 \<le> current_turn_index g \<and> current_turn_index g < int (length (turn_order g)))"
  shows "(turn_order (apply_turn_op g op) = [] \<and> current_turn_index (apply_turn_op g op) = 0)
     \<or> (0 \<le> current_turn_index (apply_turn_op g op)
        \<and> current_turn_index (apply_turn_op g op) < int (length (turn_order (apply_turn_op g op))))"
proof (cases op)
  case (SetTurnOrder bot_order)
  then show ?thesis by (cases bot_order) (simp_all add: set_turn_order_def)
next
  case NextTurn
  with assms show ?thesis by (auto simp add: next_turn_def Let_def)
next
  case ResetTurnOrder
  then show ?thesis by (cases "turn_order g") (simp_all add: reset_turn_order_def)
qed

lemma turn_index_inv:
  "(turn_order (run_turn_ops new_GameState ops) = []
      \<and> current_turn_index (run_turn_ops new_GameState ops) = 0)
   \<or> (0 \<le> current_turn_index (run_turn_ops new_GameState ops)
      \<and> current_turn_index (run_turn_ops new_GameState ops)
          < int (length (turn_order (run_turn_ops new_GameState ops))))"
proof (induction ops rule: rev_induct)
  case Nil
  show ?case by (simp add: run_turn_ops_def new_GameState_def)
next
  case (snoc op ops)
  from apply_turn_op_inv [OF snoc.IH, of op] show ?case by (simp add: run_turn_ops_def)
qed

text \<open>
  C10. In every state reached from the empty state by \<open>set_turn_order\<close>, \<open>next_turn\<close>
  and \<open>reset_turn_order\<close> calls: when \<open>turn_order\<close> is not empty,
  \<open>0 \<le> current_turn_index < len(turn_order)\<close> and \<open>get_current_player\<close> returns
  the element of \<open>turn_order\<close> at that index; it returns \<open>None\<close> exactly when
  \<open>turn_order\<close> is empty; and its subscript never raises. (The list handed to
  \<open>set_turn_order\<close> is stored as it is, and is taken not to be mutated by the caller
  afterwards.)
\<close>

theorem current_player_in_range:
  "(turn_order (run_turn_ops new_GameState ops) \<noteq> [] \<longrightarrow>
       0 \<le> current_turn_index (run_turn_ops new_GameState ops)
     \<and> current_turn_index (run_turn_ops new_GameState ops)
         < int (length (turn_order (run_turn_ops new_GameState ops)))
     \<and> get_current_player (run_turn_ops new_GameState ops)
         = Inr (Some (turn_order (run_turn_ops new_GameState ops)
                        ! nat (current_turn_index (run_turn_ops new_GameState ops))))
     \<and> turn_order (run_turn_ops new_GameState ops)
           ! nat (current_turn_index (run_turn_ops new_GameState ops))
         \<in> set (turn_order (run_turn_ops new_GameState ops)))
   \<and> (get_current_player (run_turn_ops new_GameState ops) = Inr None
        \<longleftrightarrow> turn_order (run_turn_ops new_GameState ops) = [])
   \<and> (\<forall>e. get_current_player (run_turn_ops new_GameState ops) \<noteq> Inl e)"
  using turn_index_inv [of ops]
  by (auto simp add: get_current_player_def list_getitem_def)

theorem current_player_in_range_witness:
  "turn_order (run_turn_ops new_GameState
       [SetTurnOrder [''Stark'', ''Lannister''], NextTurn, NextTurn, NextTurn, ResetTurnOrder, NextTurn])
     \<noteq> []
   \<and> current_turn_index (run_turn_ops new_GameState
       [SetTurnOrder [''Stark'', ''Lannister''], NextTurn, NextTurn, NextTurn, ResetTurnOrder, NextTurn])
     = 1
   \<and> get_current_player (run_turn_ops new_GameState
       [SetTurnOrder [''Stark'', ''Lannister''], NextTurn, NextTurn, NextTurn, ResetTurnOrder, NextTurn])
     = Inr (Some ''Lannister'')"
  using current_player_in_range
          [of "[SetTurnOrder [''Stark'', ''Lannister''], NextTurn, NextTurn, NextTurn, ResetTurnOrder, NextTurn]"]
  by (simp add: run_turn_ops_def set_turn_order_def next_turn_def reset_turn_order_def
        new_GameState_def Let_def)

section \<open>Properties of the legal-move generator\<close>

text \<open>
  The empty state is keyed by name, and \<open>add_location\<close> and \<open>connect_locations\<close> keep
  a state so: no call of the map-assembly interface leads out of these states.
\<close>

lemma keyed_by_name_setitem:
  assumes "keyed_by_name g" and "name loc = k"
  shows "keyed_by_name (g\<lparr>locations := dict_setitem (locations g) k loc\<rparr>)"
proof -
  have "list_all (\<lambda>(k, loc). name loc = k) (AList.update k loc al)"
    if "list_all (\<lambda>(k, loc). name loc = k) al" for al
    using that assms(2) by (induction al) auto
  with assms(1) show ?thesis
    by (simp add: keyed_by_name_def dict_setitem_def distinct_update)
qed

lemma keyed_by_name_new: "keyed_by_name new_GameState"
  by (simp add: keyed_by_name_def new_GameState_def)

lemma keyed_by_name_add_location:
  "keyed_by_name g \<Longrightarrow> keyed_by_name (add_location g loc)"
  by (simp add: add_location_def keyed_by_name_setitem)

lemma keyed_by_name_adjacent_add:
  assumes "keyed_by_name g"
  shows "keyed_by_name (snd (adjacent_add g a b))"
proof (cases "map_of (locations g) a")
  case None
  with assms show ?thesis by (simp add: adjacent_add_def dict_getitem_def)
next
  case (Some loc)
  then have "(a, loc) \<in> set (locations g)" by (rule map_of_SomeD)
  with assms have "name loc = a" by (auto simp add: keyed_by_name_def list_all_iff)
  with assms Some show ?thesis
    by (simp add: adjacent_add_known keyed_by_name_setitem)
qed

lemma keyed_by_name_connect_locations:
  assumes "keyed_by_name g"
  shows "keyed_by_name (snd (connect_locations g a b))"
proof (cases "adjacent_add g a b")
  case (Pair r g1)
  with keyed_by_name_adjacent_add [OF assms, of a b] have g1: "keyed_by_name g1" by simp
  from keyed_by_name_adjacent_add [OF g1, of b a] g1 Pair assms show ?thesis
    by (cases r) (simp_all add: connect_locations_def)
qed

lemma adjacent_lookup_total:
  "adjacent_lookup locs ns = Inr (List.map_filter (map_of locs) ns)"
  by (induction ns) (auto simp add: dict_contains_def dict_getitem_def split: option.splits)

lemma adjacent_orders_append:
  "adjacent_orders botid loc ns orders = orders @ map (neighbour_order botid loc) ns"
  by (induction ns arbitrary: orders) (simp_all add: neighbour_order_def Let_def)

lemma get_orders_for_location_result:
  "get_orders_for_location gen botid loc = (Inr (expected_orders (game_state gen) botid loc), gen)"
  by (simp add: get_orders_for_location_def get_adjacent_locations_def adjacent_lookup_total
        adjacent_orders_append expected_orders_def defend_order_def neighbours_def)

lemma legal_orders_loop_result:
  "legal_orders_loop gen botid locs acc =
     (Inr (foldl (\<lambda>d loc. dict_setitem d (name loc) (expected_orders (game_state gen) botid loc))
             acc (filter has_units locs)), gen)"
  by (induction locs arbitrary: acc)
     (simp_all add: get_orders_for_location_result expected_orders_def)

lemma map_of_foldl_setitem:
  "map_of (foldl (\<lambda>d loc. dict_setitem d (name loc) (f loc)) acc locs)
     = map_of acc ++ map_of (rev (map (\<lambda>loc. (name loc, f loc)) locs))"
proof (induction locs arbitrary: acc)
  case Nil
  show ?case by simp
next
  case (Cons l locs)
  have "map_of (foldl (\<lambda>d loc. dict_setitem d (name loc) (f loc)) acc (l # locs))
      = (map_of acc)(name l \<mapsto> f l) ++ map_of (rev (map (\<lambda>loc. (name loc, f loc)) locs))"
    by (simp add: Cons.IH map_of_dict_setitem fun_upd_def)
  also have "\<dots> = map_of acc ++ map_of (rev (map (\<lambda>loc. (name loc, f loc)) (l # locs)))"
    by (auto simp add: map_add_def fun_eq_iff split: option.splits)
  finally show ?case .
qed


lemma keyed_names_distinct:
  assumes "keyed_by_name g"
  shows "distinct (map name (dict_values (locations g)))"
proof -
  have "map name (dict_values (locations g)) = map fst (locations g)"
    using assms by (auto simp add: keyed_by_name_def dict_values_def list_all_iff)
  with assms show ?thesis by (simp add: keyed_by_name_def)
qed

lemma ordering_names_distinct:
  "keyed_by_name g \<Longrightarrow> distinct (map name (ordering_locations g botid))"
  by (simp add: ordering_locations_def get_bot_locations_def keyed_names_distinct distinct_map_filter)

lemma get_legal_orders_result:
  "get_legal_orders gen botid =
     (Inr (foldl (\<lambda>d loc. dict_setitem d (name loc) (expected_orders (game_state gen) botid loc))
             [] (ordering_locations (game_state gen) botid)), gen)"
  by (simp add: get_legal_orders_def legal_orders_loop_result ordering_locations_def)

lemma distinct_foldl_setitem:
  "distinct (map fst acc) \<Longrightarrow>
     distinct (map fst (foldl (\<lambda>d loc. dict_setitem d (name loc) (f loc)) acc locs))"
  by (induction locs arbitrary: acc) (simp_all add: dict_setitem_def distinct_update)

lemma map_of_legal_orders:
  assumes "distinct (map name locs)"
  shows "map_of (foldl (\<lambda>d loc. dict_setitem d (name loc) (f loc)) [] locs) n
           = (case find (\<lambda>loc. name loc = n) locs of None \<Rightarrow> None | Some loc \<Rightarrow> Some (f loc))"
proof -
  have d: "distinct (map fst (map (\<lambda>loc. (name loc, f loc)) locs))"
    using assms by (simp add: comp_def)
  have "map_of (rev (map (\<lambda>loc. (name loc, f loc)) locs)) = map_of (map (\<lambda>loc. (name loc, f loc)) locs)"
    using d by (intro map_of_inject_set [THEN iffD2]) (simp_all add: rev_map [symmetric])
  moreover have "map_of (map (\<lambda>loc. (name loc, f loc)) locs) n
      = (case find (\<lambda>loc. name loc = n) locs of None \<Rightarrow> None | Some loc \<Rightarrow> Some (f loc))"
    by (induction locs) auto
  ultimately show ?thesis by (simp add: map_of_foldl_setitem)
qed


lemma find_by_name:
  "distinct (map name locs) \<Longrightarrow> loc \<in> set locs \<Longrightarrow> find (\<lambda>l. name l = name loc) locs = Some loc"
  by (induction locs) (auto simp add: image_iff)

lemma find_name_NoneI:
  "\<forall>l \<in> set locs. name l \<noteq> n \<Longrightarrow> find (\<lambda>l. name l = n) locs = None"
  by (simp add: find_None_iff)

lemma expected_orders_defend_once:
  "hd (expected_orders g botid loc) = defend_order botid loc
   \<and> length (filter (\<lambda>ord. order_type ord = DEFEND) (expected_orders g botid loc)) = 1
   \<and> length (expected_orders g botid loc) = 1 + length (neighbours g loc)"
  by (simp add: expected_orders_def defend_order_def neighbour_order_def filter_empty_conv comp_def)

lemma demo_keyed: "keyed_by_name (game_state demo_generator)"
  by (simp add: keyed_by_name_def demo_generator_def new_GameState_def demo_winterfell_def
        demo_moat_def demo_pyke_def new_Location_def)

lemma demo_legal:
  "get_legal_orders demo_generator ''Stark''
     = (Inr [(''Winterfell'',
              [defend_order ''Stark'' demo_winterfell,
               neighbour_order ''Stark'' demo_winterfell demo_moat,
               neighbour_order ''Stark'' demo_winterfell demo_pyke])],
        demo_generator)"
  by (simp add: get_legal_orders_def get_bot_locations_def dict_values_def
        get_orders_for_location_def get_adjacent_locations_def dict_contains_def dict_getitem_def
        dict_setitem_def has_units_def get_total_units_def unit_kinds_def
        defend_order_def neighbour_order_def
        demo_generator_def new_GameState_def demo_winterfell_def
        demo_moat_def demo_pyke_def new_Location_def Let_def)

lemma neighbours_distinct:
  assumes "keyed_by_name g" and "distinct (adjacent_locations loc)"
  shows "distinct (neighbours g loc)"
proof -
  have key: "name l = n" if "map_of (locations g) n = Some l" for n l
  proof -
    from that have "(n, l) \<in> set (locations g)" by (rule map_of_SomeD)
    with assms(1) show ?thesis by (auto simp add: keyed_by_name_def list_all_iff)
  qed
  have "inj_on (the \<circ> map_of (locations g))
          (set (filter (\<lambda>n. map_of (locations g) n \<noteq> None) (adjacent_locations loc)))"
  proof (rule inj_onI)
    fix n m
    assume n: "n \<in> set (filter (\<lambda>n. map_of (locations g) n \<noteq> None) (adjacent_locations loc))"
      and m: "m \<in> set (filter (\<lambda>n. map_of (locations g) n \<noteq> None) (adjacent_locations loc))"
      and eq: "(the \<circ> map_of (locations g)) n = (the \<circ> map_of (locations g)) m"
    from n obtain l where l: "map_of (locations g) n = Some l" by auto
    from m obtain l' where l': "map_of (locations g) m = Some l'" by auto
    from eq l l' have "l = l'" by simp
    with key [OF l] key [OF l'] show "n = m" by simp
  qed
  with assms(2) show ?thesis
    by (simp add: neighbours_def List.map_filter_def distinct_map)
qed

lemma expected_orders_targets:
  "distinct (neighbours g loc) \<Longrightarrow>
     distinct (map target_location (expected_orders g botid loc))"
  by (auto simp add: expected_orders_def defend_order_def neighbour_order_def comp_def
        distinct_map inj_on_def)

text \<open>
  C1, as the claim states it, fails. The mapping is keyed by \<open>location.name\<close>, and
  nothing makes the names of a \<open>locations\<close> dict differ. In the state with two
  locations named Harrenhal, the first one is owned by Stark, has a unit and has the
  Twins as a neighbour on the map; its list \<open>[DEFEND, SUPPORT to the Twins]\<close> is
  written under Harrenhal and then overwritten by the list of the second Harrenhal, so
  the mapping returned holds no SUPPORT order for the first one.
\<close>

theorem legal_orders_name_clash:
  "map_of (locations (game_state clash_generator)) ''k1'' = Some clash_first
   \<and> owner clash_first = Some ''Stark'' \<and> has_units clash_first
   \<and> neighbours (game_state clash_generator) clash_first = [clash_twins]
   \<and> owner clash_twins = Some ''Stark''
   \<and> get_legal_orders clash_generator ''Stark''
       = (Inr [(name clash_first, [defend_order ''Stark'' clash_second]),
               (''Twins'', [defend_order ''Stark'' clash_twins])],
          clash_generator)
   \<and> neighbour_order ''Stark'' clash_first clash_twins
       \<notin> set [defend_order ''Stark'' clash_second]
   \<and> defend_order ''Stark'' clash_first \<notin> set [defend_order ''Stark'' clash_second]"
  by (simp add: get_legal_orders_def get_bot_locations_def dict_values_def
        get_orders_for_location_def get_adjacent_locations_def dict_contains_def dict_getitem_def
        dict_setitem_def has_units_def get_total_units_def unit_kinds_def neighbours_def
        defend_order_def neighbour_order_def
        clash_generator_def new_GameState_def clash_first_def
        clash_twins_def clash_second_def new_Location_def Let_def)

text \<open>
  C1, amended. In a game state keyed by name (each location stands in the
  \<open>locations\<close> dict under its own name, as \<open>add_location\<close> stores it),
  \<open>get_legal_orders\<close> returns, for every bot, a mapping (a dict, each key once)
  whose keys are exactly the names of the locations that the bot owns and that have
  units. Every location of the map that the bot owns and that has units has under its
  name the list \<open>expected_orders\<close>: the DEFEND order first, then one order for each
  name of its adjacency set that is a key of the map, in the order of the set: a MARCH
  to the location found when its owner is not the bot (an unowned one included), a
  SUPPORT when it is; nothing else. Every other location of the map, one that the bot
  owns without units included, has no entry under its name. That list has exactly one
  DEFEND order, at its head, and as many further orders as the location has neighbours
  on the map; and as an adjacency set holds a name once, no two orders of the list
  have the same target.
\<close>

theorem legal_orders_complete:
  assumes "keyed_by_name (game_state gen)"
  shows "\<exists>legal. get_legal_orders gen botid = (Inr legal, gen)
      \<and> distinct (map fst legal)
      \<and> fst ` set legal
          = {name loc | loc. loc \<in> set (dict_values (locations (game_state gen)))
                            \<and> owner loc = Some botid \<and> has_units loc}
      \<and> (\<forall>loc \<in> set (dict_values (locations (game_state gen))).
            map_of legal (name loc)
              = (if owner loc = Some botid \<and> has_units loc
                 then Some (expected_orders (game_state gen) botid loc) else None)
          \<and> hd (expected_orders (game_state gen) botid loc) = defend_order botid loc
          \<and> length (filter (\<lambda>ord. order_type ord = DEFEND)
                       (expected_orders (game_state gen) botid loc)) = 1
          \<and> length (expected_orders (game_state gen) botid loc)
              = 1 + length (neighbours (game_state gen) loc)
          \<and> (distinct (adjacent_locations loc) \<longrightarrow>
                distinct (map target_location (expected_orders (game_state gen) botid loc))))"
proof -
  let ?g = "game_state gen"
  let ?ords = "ordering_locations ?g botid"
  let ?legal = "foldl (\<lambda>d loc. dict_setitem d (name loc) (expected_orders ?g botid loc)) [] ?ords"
  have ords: "set ?ords = {loc \<in> set (dict_values (locations ?g)). owner loc = Some botid \<and> has_units loc}"
    by (auto simp add: ordering_locations_def get_bot_locations_def)
  have dn: "distinct (map name ?ords)"
    using assms by (rule ordering_names_distinct)
  have inj: "inj_on name (set (dict_values (locations ?g)))"
    using keyed_names_distinct [OF assms] by (simp add: distinct_map)
  have lookup: "map_of ?legal n
      = (case find (\<lambda>loc. name loc = n) ?ords of None \<Rightarrow> None
         | Some loc \<Rightarrow> Some (expected_orders ?g botid loc))" for n
    using dn by (rule map_of_legal_orders)
  have res: "get_legal_orders gen botid = (Inr ?legal, gen)"
    by (rule get_legal_orders_result)
  have dist: "distinct (map fst ?legal)"
    by (rule distinct_foldl_setitem) simp
  have "dom (map_of ?legal) = name ` set ?ords"
  proof (rule set_eqI)
    fix n
    have "n \<in> dom (map_of ?legal) \<longleftrightarrow> find (\<lambda>loc. name loc = n) ?ords \<noteq> None"
      by (simp add: lookup domIff split: option.splits)
    also have "\<dots> \<longleftrightarrow> (\<exists>l \<in> set ?ords. name l = n)"
      by (auto simp add: find_None_iff)
    also have "\<dots> \<longleftrightarrow> n \<in> name ` set ?ords"
      by auto
    finally show "n \<in> dom (map_of ?legal) \<longleftrightarrow> n \<in> name ` set ?ords" .
  qed
  then have domain: "fst ` set ?legal
      = {name loc | loc. loc \<in> set (dict_values (locations ?g)) \<and> owner loc = Some botid \<and> has_units loc}"
    unfolding dom_map_of_conv_image_fst ords by auto
  have each: "map_of ?legal (name loc)
      = (if owner loc = Some botid \<and> has_units loc
         then Some (expected_orders ?g botid loc) else None)"
    if mem: "loc \<in> set (dict_values (locations ?g))" for loc
  proof (cases "owner loc = Some botid \<and> has_units loc")
    case True
    with mem have "loc \<in> set ?ords" by (simp add: ords)
    with dn have "find (\<lambda>l. name l = name loc) ?ords = Some loc" by (rule find_by_name)
    with True show ?thesis by (simp add: lookup)
  next
    case False
    have "\<forall>l \<in> set ?ords. name l \<noteq> name loc"
    proof
      fix l assume l: "l \<in> set ?ords"
      show "name l \<noteq> name loc"
      proof
        assume "name l = name loc"
        moreover from l have "l \<in> set (dict_values (locations ?g))" by (simp add: ords)
        ultimately have "l = loc" using inj mem by (auto dest: inj_onD)
        with l False show False by (simp add: ords)
      qed
    qed
    then have "find (\<lambda>l. name l = name loc) ?ords = None" by (rule find_name_NoneI)
    with False show ?thesis by (simp add: lookup)
  qed
  have shape: "hd (expected_orders ?g botid loc) = defend_order botid loc
      \<and> length (filter (\<lambda>ord. order_type ord = DEFEND) (expected_orders ?g botid loc)) = 1
      \<and> length (expected_orders ?g botid loc) = 1 + length (neighbours ?g loc)
      \<and> (distinct (adjacent_locations loc) \<longrightarrow>
            distinct (map target_location (expected_orders ?g botid loc)))" for loc
    using expected_orders_defend_once [of ?g botid loc]
      expected_orders_targets [OF neighbours_distinct [OF assms], of loc botid]
    by blast
  from res dist domain each shape show ?thesis by blast
qed



theorem legal_orders_complete_witness:
  "keyed_by_name (game_state demo_generator)
   \<and> distinct (adjacent_locations demo_winterfell)
   \<and> get_legal_orders demo_generator ''Stark''
     = (Inr [(''Winterfell'',
              [defend_order ''Stark'' demo_winterfell,
               neighbour_order ''Stark'' demo_winterfell demo_moat,
               neighbour_order ''Stark'' demo_winterfell demo_pyke])],
        demo_generator)
   \<and> order_type (neighbour_order ''Stark'' demo_winterfell demo_moat) = SUPPORT
   \<and> order_type (neighbour_order ''Stark'' demo_winterfell demo_pyke) = MARCH"
  using legal_orders_complete [OF demo_keyed, of "''Stark''"] demo_keyed demo_legal
  by (simp add: neighbour_order_def demo_moat_def demo_pyke_def demo_winterfell_def
        new_Location_def)

lemma demo_is_legal:
  "is_legal_order demo_generator ''Stark'' (neighbour_order ''Stark'' demo_winterfell demo_pyke)
     = (Inr True, demo_generator)"
  by (simp add: is_legal_order_def demo_legal dict_contains_def dict_getitem_def
        Order_eq_def Location_eq_def units_eq_def unit_kinds_def defend_order_def neighbour_order_def
        demo_winterfell_def demo_moat_def demo_pyke_def new_Location_def)

text \<open>
  C9. \<open>get_legal_orders\<close> and \<open>is_legal_order\<close> return a value on every input, none
  of their dict subscripts raises, and they hand the generator back as it was, with
  the whole game state in it. When the bot has no location with units, the mapping
  is empty and every order is reported as not legal.
\<close>

theorem legal_orders_read_only:
  "(\<exists>legal. get_legal_orders gen botid = (Inr legal, gen))
   \<and> (\<exists>verdict. is_legal_order gen botid ord = (Inr verdict, gen))
   \<and> (ordering_locations (game_state gen) botid = [] \<longrightarrow>
        get_legal_orders gen botid = (Inr [], gen)
      \<and> is_legal_order gen botid ord = (Inr False, gen))"
  by (auto simp add: get_legal_orders_result is_legal_order_def dict_contains_def dict_getitem_def
        split: option.splits)

theorem legal_orders_read_only_witness:
  "ordering_locations (game_state demo_generator) ''Tyrell'' = []
   \<and> get_legal_orders demo_generator ''Tyrell'' = (Inr [], demo_generator)
   \<and> is_legal_order demo_generator ''Tyrell'' (defend_order ''Tyrell'' demo_pyke)
       = (Inr False, demo_generator)"
  using legal_orders_read_only [of demo_generator "''Tyrell''" "defend_order ''Tyrell'' demo_pyke"]
  by (simp add: ordering_locations_def get_bot_locations_def dict_values_def
        demo_generator_def new_GameState_def demo_winterfell_def
        demo_moat_def demo_pyke_def new_Location_def)

end
